theory Spec2Isabelle
  imports Main
begin

section \<open>Python strings\<close>

text \<open>
  A Python \<open>str\<close> is a sequence of Unicode code points, and \<open>len\<close> counts code points.
  A string is therefore a list of code points; \<open>lit\<close> turns a literal into one.
\<close>

type_synonym codepoint = nat
type_synonym pystr = "codepoint list"

definition lit :: "string \<Rightarrow> pystr" where
  "lit s = map of_char s"

definition newline :: pystr where
  "newline = [10]"

text \<open>
  The code points for which \<open>str.isspace\<close> holds, the separators of \<open>str.split()\<close>:
  tab to carriage return, the four ASCII separators, space, NEL, no-break space and the
  Unicode spaces above Latin-1.
\<close>

definition py_isspace :: "codepoint \<Rightarrow> bool" where
  "py_isspace c \<longleftrightarrow>
     (9 \<le> c \<and> c \<le> 13) \<or> (28 \<le> c \<and> c \<le> 32) \<or> c = 133 \<or> c = 160 \<or> c = 5760 \<or>
     (8192 \<le> c \<and> c \<le> 8202) \<or> c = 8232 \<or> c = 8233 \<or> c = 8239 \<or> c = 8287 \<or> c = 12288"

text \<open>
  \<open>string.split()\<close>: the maximal runs of non-space code points, in order. The first
  argument of \<open>split_from\<close> is the word read so far.
\<close>

fun split_from :: "pystr \<Rightarrow> pystr \<Rightarrow> pystr list" where
  "split_from w [] = (if w = [] then [] else [w])"
| "split_from w (c # cs) =
     (if py_isspace c then (if w = [] then split_from [] cs else w # split_from [] cs)
      else split_from (w @ [c]) cs)"

definition py_split :: "pystr \<Rightarrow> pystr list" where
  "py_split s = split_from [] s"

text \<open>\<open>sep.join(xs)\<close>.\<close>

fun join :: "pystr \<Rightarrow> pystr list \<Rightarrow> pystr" where
  "join sep [] = []"
| "join sep [x] = x"
| "join sep (x # y # ys) = x @ sep @ join sep (y # ys)"

section \<open>\<open>add_newlines\<close>\<close>

text \<open>
  The loop of \<open>add_newlines\<close> over the words, on the pair of the lines finished so far and
  the line being filled. The test compares the length of the line plus the length of the
  word with \<open>line_length\<close>; the line then grows by the word, and by a space before it when
  the line is not empty.
\<close>

fun add_newlines_loop :: "int \<Rightarrow> pystr list \<Rightarrow> pystr list \<times> pystr \<Rightarrow> pystr list \<times> pystr" where
  "add_newlines_loop line_length [] (lines, current_line) = (lines, current_line)"
| "add_newlines_loop line_length (word # words) (lines, current_line) =
     (if int (length current_line) + int (length word) \<le> line_length
      then add_newlines_loop line_length words
             (lines, current_line @ (if current_line \<noteq> [] then lit '' '' @ word else word))
      else add_newlines_loop line_length words (lines @ [current_line], word))"

definition add_newlines_lines :: "pystr \<Rightarrow> int \<Rightarrow> pystr list" where
  "add_newlines_lines string line_length =
     (case add_newlines_loop line_length (py_split string) ([], []) of
        (lines, current_line) \<Rightarrow> if current_line \<noteq> [] then lines @ [current_line] else lines)"

definition add_newlines :: "pystr \<Rightarrow> int \<Rightarrow> pystr" where
  "add_newlines string line_length = join newline (add_newlines_lines string line_length)"

section \<open>\<open>is_valid_filename\<close>\<close>

text \<open>
  \<open>os.path.basename\<close> on a \<open>str\<close>: the part after the last separator. It is a pure
  string operation that touches no file and raises nothing on a \<open>str\<close>; \<open>None\<close> stands
  for an \<open>OSError\<close>, the only exception \<open>is_valid_filename\<close> catches.
\<close>

definition os_path_basename :: "pystr \<Rightarrow> pystr option" where
  "os_path_basename p = Some (rev (takeWhile (\<lambda>c. c \<noteq> 47) (rev p)))"

definition is_valid_filename :: "pystr \<Rightarrow> bool" where
  "is_valid_filename filename =
     (case os_path_basename filename of Some _ \<Rightarrow> True | None \<Rightarrow> False)"

section \<open>\<open>PanelsSwitcher\<close>\<close>

datatype py_error = IndexError | TypeError | OSError | AttributeError | KeyError

text \<open>
  Panels are windows with identity (\<open>==\<close> on them is identity), of any type \<open>'v\<close>.
  \<open>shown\<close> is the visibility flag of every window, managed or not; \<open>items\<close> are the
  children added to the sizer; \<open>layouts\<close> counts the calls of \<open>parent.Layout()\<close>.
\<close>

record 'v PanelsSwitcher =
  panels :: "'v list"
  items :: "'v list"
  shown :: "'v \<Rightarrow> bool"
  layouts :: nat

fun Show_loop :: "'v \<Rightarrow> 'v list \<Rightarrow> ('v \<Rightarrow> bool) \<Rightarrow> ('v \<Rightarrow> bool)" where
  "Show_loop panel [] vis = vis"
| "Show_loop panel (p # ps) vis =
     Show_loop panel ps (if p = panel then vis(p := True) else vis(p := False))"

definition Show :: "'v \<Rightarrow> 'v PanelsSwitcher \<Rightarrow> 'v PanelsSwitcher" where
  "Show panel s =
     s\<lparr>shown := Show_loop panel (panels s) (shown s), layouts := Suc (layouts s)\<rparr>"

definition add_panel :: "'v \<Rightarrow> 'v PanelsSwitcher \<Rightarrow> 'v PanelsSwitcher" where
  "add_panel panel s = s\<lparr>panels := panels s @ [panel], items := items s @ [panel]\<rparr>"

text \<open>
  The constructor, from the list of panels and the visibility of the windows before the
  call. \<open>panels[0]\<close> raises \<open>IndexError\<close> on the empty list.
\<close>

definition init :: "'v list \<Rightarrow> ('v \<Rightarrow> bool) \<Rightarrow> py_error + 'v PanelsSwitcher" where
  "init ps vis =
     (case ps of
        [] \<Rightarrow> Inl IndexError
      | p # _ \<Rightarrow> Inr (Show p \<lparr>panels = ps, items = ps, shown = vis, layouts = 0\<rparr>))"

definition visible_panels :: "'v PanelsSwitcher \<Rightarrow> 'v set" where
  "visible_panels s = set (filter (shown s) (panels s))"

section \<open>The application state\<close>

text \<open>
  The thread that executes a call: the main loop runs the event handlers on the UI thread;
  the target of a \<open>threading.Thread\<close> runs on a worker thread.
\<close>

datatype thread = UI | Worker

type_synonym colour = "nat \<times> nat \<times> nat"

text \<open>The calls that change what the window shows or what is on disk, logged with their thread.\<close>

datatype effect =
    SetForegroundColour colour
  | SetLabel pystr
  | Layout
  | FileWrite pystr pystr

datatype view = home_panel | settings_panel

datatype target = send_audio_target

record app =
  selected_file :: "pystr option"
  title_entry :: pystr
  file_display :: pystr
  error_label :: pystr
  error_colour :: colour
  api_key_entry :: pystr
  environ :: "pystr \<rightharpoonup> pystr"
  openai_api_key :: "pystr option"
  files :: "pystr \<rightharpoonup> pystr"
  threads :: "target list"
  sizer :: "view PanelsSwitcher"
  log :: "(thread \<times> effect) list"

text \<open>What a call leaves behind: the state, and the exception when it raised one.\<close>

datatype 'a outcome = Returned 'a | Raised py_error 'a

fun state_of :: "'a outcome \<Rightarrow> 'a" where
  "state_of (Returned a) = a"
| "state_of (Raised e a) = a"

record datetime =
  year :: nat
  month :: nat
  day :: nat
  hour :: nat
  minute :: nat
  second :: nat

text \<open>
  What \<open>openai.Audio.transcribe\<close> does: it raises an \<open>OpenAIError\<close> whose \<open>str\<close> is
  given, or it returns a response. Of a response the program reads \<open>response.data['text']\<close>:
  the argument of \<open>Response\<close> is the dictionary \<open>response.data\<close>, and \<open>None\<close> when the
  response has no attribute \<open>data\<close>. The responses of the \<open>openai\<close> releases that have
  \<open>openai.Audio.transcribe\<close> (0.27 and 0.28) hold the transcript under their own key
  \<open>text\<close> and have no attribute \<open>data\<close>.
\<close>

datatype api_result = Response "(pystr \<rightharpoonup> pystr) option" | OpenAIError pystr

text \<open>
  What the program reads from outside during one call: the clock, the working directory,
  which paths \<open>open\<close> can read and write, and what \<open>openai.Audio.transcribe\<close> does.
\<close>

record world =
  now :: datetime
  getcwd :: pystr
  can_read :: "pystr \<Rightarrow> bool"
  can_write :: "pystr \<Rightarrow> bool"
  remote :: api_result

subsection \<open>\<open>strftime("%Y_%m_%d_%H_%M_%S")\<close>\<close>

definition digit :: "nat \<Rightarrow> codepoint" where
  "digit n = 48 + n mod 10"

definition zero_pad2 :: "nat \<Rightarrow> pystr" where
  "zero_pad2 n = [digit (n div 10), digit n]"

definition zero_pad4 :: "nat \<Rightarrow> pystr" where
  "zero_pad4 n = [digit (n div 1000), digit (n div 100), digit (n div 10), digit n]"

definition strftime :: "datetime \<Rightarrow> pystr" where
  "strftime d =
     zero_pad4 (year d) @ lit ''_'' @ zero_pad2 (month d) @ lit ''_'' @ zero_pad2 (day d) @
     lit ''_'' @ zero_pad2 (hour d) @ lit ''_'' @ zero_pad2 (minute d) @ lit ''_'' @
     zero_pad2 (second d)"

subsection \<open>\<open>HomePanel\<close>\<close>

definition red :: colour where
  "red = (255, 0, 0)"

definition green :: colour where
  "green = (30, 117, 22)"

definition notify_error :: "thread \<Rightarrow> pystr \<Rightarrow> app \<Rightarrow> app" where
  "notify_error t msg a =
     a\<lparr>error_colour := red, error_label := msg,
       log := log a @ [(t, SetForegroundColour red), (t, SetLabel msg), (t, Layout)]\<rparr>"

definition clear_error :: "thread \<Rightarrow> app \<Rightarrow> app" where
  "clear_error t a =
     a\<lparr>error_label := [], log := log a @ [(t, SetLabel []), (t, Layout)]\<rparr>"

text \<open>
  \<open>select_audio_file\<close>, an event handler. The dialog gives the path and the file name
  when the user confirms, nothing when the user cancels.
\<close>

definition select_audio_file :: "(pystr \<times> pystr) option \<Rightarrow> app \<Rightarrow> app" where
  "select_audio_file dlg a =
     (let a1 = clear_error UI a in
      case dlg of
        Some (path, filename) \<Rightarrow>
          a1\<lparr>selected_file := Some path, file_display := filename,
             log := log a1 @ [(UI, Layout)]\<rparr>
      | None \<Rightarrow> a1)"

text \<open>The stem of the file name, lines 168 to 173 of \<open>save_transcript\<close>.\<close>

definition transcript_title :: "datetime \<Rightarrow> pystr \<Rightarrow> pystr" where
  "transcript_title current_datetime value =
     (if is_valid_filename value \<and> value \<noteq> [] then value
      else lit ''transcript_'' @ strftime current_datetime)"

text \<open>The label after a save; 39 is the apostrophe and 92 the backslash.\<close>

definition saved_message :: "pystr \<Rightarrow> pystr \<Rightarrow> pystr" where
  "saved_message cwd title =
     lit ''Saved transcript to '' @ [39] @ cwd @ [92] @ title @ lit ''.txt'' @ [39]"

definition save_transcript :: "thread \<Rightarrow> world \<Rightarrow> pystr \<Rightarrow> app \<Rightarrow> app outcome" where
  "save_transcript t w text a =
     (let title = transcript_title (now w) (title_entry a);
          name = title @ lit ''.txt''
      in if can_write w name
         then Returned
           (a\<lparr>files := (files a)(name \<mapsto> text),
              error_colour := green,
              error_label := saved_message (getcwd w) title,
              log := log a @ [(t, FileWrite name text), (t, SetForegroundColour green),
                              (t, SetLabel (saved_message (getcwd w) title)), (t, Layout)]\<rparr>)
         else Raised OSError a)"

text \<open>
  \<open>send_audio\<close>. \<open>open\<close> raises \<open>TypeError\<close> on \<open>None\<close> and an \<open>OSError\<close> on a path
  it cannot read. In the \<open>else\<close> branch \<open>response.data\<close> raises \<open>AttributeError\<close> on a
  response without that attribute, and \<open>['text']\<close> raises \<open>KeyError\<close> on a dictionary
  without that key; neither is caught, and nothing has been written or shown by then.
\<close>

definition send_audio :: "thread \<Rightarrow> world \<Rightarrow> app \<Rightarrow> app outcome" where
  "send_audio t w a =
     (case selected_file a of
        None \<Rightarrow> Raised TypeError a
      | Some path \<Rightarrow>
          if can_read w path
          then (case remote w of
                  OpenAIError e \<Rightarrow>
                    save_transcript t w (lit ''test'')
                      (notify_error t (lit ''OPENAI error: '' @ add_newlines e 50) a)
                | Response response \<Rightarrow>
                    (case response of
                       None \<Rightarrow> Raised AttributeError a
                     | Some data \<Rightarrow>
                         (case data (lit ''text'') of
                            None \<Rightarrow> Raised KeyError a
                          | Some text \<Rightarrow> save_transcript t w text a)))
          else Raised OSError a)"

text \<open>Truth value of \<open>None\<close> or a \<open>str\<close>: false for \<open>None\<close> and for the empty string.\<close>

definition truthy :: "pystr option \<Rightarrow> bool" where
  "truthy v = (case v of None \<Rightarrow> False | Some s \<Rightarrow> s \<noteq> [])"

definition getenv :: "(pystr \<rightharpoonup> pystr) \<Rightarrow> pystr \<Rightarrow> pystr option" where
  "getenv env key = env key"

text \<open>\<open>transcribe\<close>, an event handler: \<open>Thread(target=self.send_audio).start()\<close> starts a thread.\<close>

definition transcribe :: "app \<Rightarrow> app" where
  "transcribe a =
     (let a1 = clear_error UI a in
      if truthy (selected_file a1)
      then (if truthy (getenv (environ a1) (lit ''OPENAI_API_KEY''))
            then a1\<lparr>threads := threads a1 @ [send_audio_target]\<rparr>
            else notify_error UI (lit ''No API key provided.'') a1)
      else notify_error UI (lit ''No audio file selected.'') a1)"

text \<open>What a started thread runs: its target, on the worker thread.\<close>

fun run :: "target \<Rightarrow> world \<Rightarrow> app \<Rightarrow> app outcome" where
  "run send_audio_target w a = send_audio Worker w a"

definition show_settings :: "app \<Rightarrow> app" where
  "show_settings a =
     (let a1 = clear_error UI a in a1\<lparr>sizer := Show settings_panel (sizer a1)\<rparr>)"

subsection \<open>\<open>SettingsPanel\<close>\<close>

definition return_to_home :: "app \<Rightarrow> app" where
  "return_to_home a = a\<lparr>sizer := Show home_panel (sizer a)\<rparr>"

definition save_api_key :: "app \<Rightarrow> app" where
  "save_api_key a =
     return_to_home
       (a\<lparr>environ := (environ a)(lit ''OPENAI_API_KEY'' \<mapsto> api_key_entry a),
          openai_api_key := Some (api_key_entry a)\<rparr>)"

subsection \<open>\<open>TranscriptionApp\<close>\<close>

text \<open>
  The state after the frame's constructor, from the environment of the process. New
  windows are shown; the \<open>openai\<close> module takes its key from the environment on import.
\<close>

definition TranscriptionApp :: "(pystr \<rightharpoonup> pystr) \<Rightarrow> py_error + app" where
  "TranscriptionApp env =
     (case init [home_panel, settings_panel] (\<lambda>_. True) of
        Inl e \<Rightarrow> Inl e
      | Inr s \<Rightarrow>
          Inr \<lparr>selected_file = None, title_entry = [], file_display = [], error_label = [],
               error_colour = red, api_key_entry = [], environ = env,
               openai_api_key = env (lit ''OPENAI_API_KEY''), files = Map.empty, threads = [],
               sizer = Show home_panel s, log = []\<rparr>)"


section \<open>Words\<close>

text \<open>A word: a non-empty string without a space, as \<open>split\<close> returns them.\<close>

definition is_word :: "pystr \<Rightarrow> bool" where
  "is_word w = (w \<noteq> [] \<and> list_all (\<lambda>c. \<not> py_isspace c) w)"

section \<open>Example states\<close>

text \<open>A switcher over the two panels 1 and 2, both shown, as wx creates windows.\<close>

definition two_shown :: "nat PanelsSwitcher" where
  "two_shown = \<lparr>panels = [1, 2], items = [1, 2], shown = (\<lambda>_. True), layouts = 0\<rparr>"

text \<open>Two words of 25 letters with a space between: \<open>"a" * 25 + " " + "b" * 25\<close>.\<close>

definition two_words :: pystr where
  "two_words = replicate 25 97 @ lit '' '' @ replicate 25 98"

text \<open>
  The application after start-up with an empty environment, and after the user has then
  chosen an audio file.
\<close>

definition fresh_app :: app where
  "fresh_app =
     \<lparr>selected_file = None, title_entry = [], file_display = [], error_label = [],
      error_colour = red, api_key_entry = [], environ = Map.empty, openai_api_key = None,
      files = Map.empty, threads = [],
      sizer = \<lparr>panels = [home_panel, settings_panel], items = [home_panel, settings_panel],
                shown = (\<lambda>p. p = home_panel), layouts = 2\<rparr>,
      log = []\<rparr>"

definition with_file :: app where
  "with_file = select_audio_file (Some (lit ''/home/u/talk.wav'', lit ''talk.wav'')) fresh_app"

text \<open>A clock reading, and a run in which the remote call fails.\<close>

definition a_time :: datetime where
  "a_time = \<lparr>year = 2024, month = 3, day = 5, hour = 14, minute = 7, second = 9\<rparr>"

definition rate_limited :: world where
  "rate_limited =
     \<lparr>now = a_time, getcwd = lit ''/home/u'', can_read = (\<lambda>_. True), can_write = (\<lambda>_. True),
      remote = OpenAIError (lit ''rate limited'')\<rparr>"

text \<open>The application after the user has also saved the key \<open>sk-test\<close> in the settings.\<close>

definition with_key :: app where
  "with_key = save_api_key (with_file\<lparr>api_key_entry := lit ''sk-test''\<rparr>)"

text \<open>The application after the user has then emptied the entry and saved again.\<close>

definition with_cleared_key :: app where
  "with_cleared_key = save_api_key (with_key\<lparr>api_key_entry := []\<rparr>)"


section \<open>The switcher\<close>

lemma Show_loop_eq: "Show_loop v ps vis p = (if p \<in> set ps then p = v else vis p)"
  by (induction ps arbitrary: vis) auto

lemma panels_Show: "panels (Show v s) = panels s"
  by (simp add: Show_def)

lemma shown_Show: "shown (Show v s) = (\<lambda>p. if p \<in> set (panels s) then p = v else shown s p)"
  by (rule ext) (simp add: Show_def Show_loop_eq)

lemma visible_panels_Show: "v \<in> set (panels s) \<Longrightarrow> visible_panels (Show v s) = {v}"
  by (auto simp: visible_panels_def shown_Show panels_Show)

text \<open>
  C1. For every non-empty list of panels the constructor returns a switcher over that list
  in which the panels shown are exactly the first one. For every panel \<open>v\<close> of a switcher,
  whatever was shown before, \<open>Show v\<close> keeps the list and leaves exactly \<open>v\<close> shown among
  the panels, and a second \<open>Show v\<close> changes no window's visibility.
\<close>

theorem switcher_exactly_one_visible:
  "(ps \<noteq> [] \<longrightarrow>
      (\<exists>s. init ps vis = Inr s \<and> panels s = ps \<and> visible_panels s = {hd ps})) \<and>
   (v \<in> set (panels s) \<longrightarrow>
      panels (Show v s) = panels s \<and> visible_panels (Show v s) = {v} \<and>
      shown (Show v (Show v s)) = shown (Show v s))"
proof (intro conjI impI)
  assume "ps \<noteq> []"
  then obtain p qs where ps: "ps = p # qs" by (cases ps) auto
  have "visible_panels (Show p \<lparr>panels = ps, items = ps, shown = vis, layouts = 0\<rparr>) = {p}"
    by (rule visible_panels_Show) (simp add: ps)
  then show "\<exists>s. init ps vis = Inr s \<and> panels s = ps \<and> visible_panels s = {hd ps}"
    by (simp add: init_def ps panels_Show)
next
  assume "v \<in> set (panels s)"
  then show "visible_panels (Show v s) = {v}" by (rule visible_panels_Show)
next
  show "panels (Show v s) = panels s" by (rule panels_Show)
next
  show "shown (Show v (Show v s)) = shown (Show v s)"
    by (rule ext) (simp add: shown_Show panels_Show)
qed

text \<open>C1 at the panels 1 and 2: after the constructor 1 is shown, after \<open>Show 2\<close> only 2.\<close>

theorem switcher_exactly_one_visible_witness:
  "[1, 2::nat] \<noteq> [] \<and>
   (\<exists>s. init [1, 2::nat] (\<lambda>_. True) = Inr s \<and> panels s = [1, 2] \<and> visible_panels s = {1}) \<and>
   (2::nat) \<in> set (panels two_shown) \<and> visible_panels (Show 2 two_shown) = {2} \<and>
   shown (Show 2 (Show 2 two_shown)) = shown (Show 2 two_shown)"
  using switcher_exactly_one_visible [of "[1, 2::nat]" "\<lambda>_. True" 2 two_shown]
  by (simp add: two_shown_def)

text \<open>
  C2, as stated, fails: with panels 1 and 2 and panel 1 shown, \<open>Show 3\<close> for the window 3
  that is not a panel hides panel 1, and no panel is shown afterwards.
\<close>

theorem Show_non_member_counterexample:
  "(3::nat) \<notin> set (panels (Show 1 two_shown)) \<and> shown (Show 1 two_shown) 1 \<and>
   \<not> shown (Show 3 (Show 1 two_shown)) 1 \<and> visible_panels (Show 3 (Show 1 two_shown)) = {}"
  by (simp add: two_shown_def Show_def visible_panels_def)

text \<open>
  C2, amended. For every window \<open>v\<close> that is not one of the switcher's panels, \<open>Show v\<close>
  hides every panel, so that none is shown; the list of panels and the visibility of every
  window that is not a panel, \<open>v\<close> included, are unchanged.
\<close>

theorem Show_non_member_hides_all:
  "v \<notin> set (panels s) \<Longrightarrow>
     visible_panels (Show v s) = {} \<and> (\<forall>p \<in> set (panels s). \<not> shown (Show v s) p) \<and>
     (\<forall>q. q \<notin> set (panels s) \<longrightarrow> shown (Show v s) q = shown s q) \<and>
     panels (Show v s) = panels s"
  by (auto simp: visible_panels_def shown_Show panels_Show)

text \<open>Amended C2 at the panels 1 and 2 and the window 3.\<close>

theorem Show_non_member_hides_all_witness:
  "(3::nat) \<notin> set (panels two_shown) \<and> visible_panels (Show 3 two_shown) = {} \<and>
   \<not> shown (Show 3 two_shown) 1 \<and> \<not> shown (Show 3 two_shown) 2 \<and>
   shown (Show 3 two_shown) 3 = shown two_shown 3"
  using Show_non_member_hides_all [of 3 two_shown]
  by (simp add: two_shown_def)

text \<open>
  C8. The constructor fails on the empty list of panels, with the \<open>IndexError\<close> of
  \<open>panels[0]\<close>, and on no other list. \<open>Show\<close> and \<open>add_panel\<close> have no failing branch:
  they return a switcher for every argument.
\<close>

theorem init_fails_only_on_empty:
  "init [] vis = Inl IndexError \<and> (ps \<noteq> [] \<longrightarrow> (\<exists>s. init ps vis = Inr s)) \<and>
   ((\<exists>e. init ps vis = Inl e) \<longleftrightarrow> ps = [])"
  by (cases ps) (simp_all add: init_def)

text \<open>C8 at the empty list and at the list of the one panel 5.\<close>

theorem init_fails_only_on_empty_witness:
  "init [] (\<lambda>_::nat. True) = Inl IndexError \<and> [5::nat] \<noteq> [] \<and>
   (\<exists>s. init [5::nat] (\<lambda>_. True) = Inr s)"
  using init_fails_only_on_empty [of "\<lambda>_. True" "[5::nat]"]
  by simp

section \<open>Word wrap\<close>

lemma split_from_space:
  "py_isspace c \<Longrightarrow> split_from w (a @ c # b) = split_from w a @ split_from [] b"
  by (induction a arbitrary: w) auto

lemma split_from_word:
  "list_all (\<lambda>c. \<not> py_isspace c) v \<Longrightarrow> w @ v \<noteq> [] \<Longrightarrow> split_from w v = [w @ v]"
  by (induction v arbitrary: w) auto

lemma py_split_word: "is_word w \<Longrightarrow> py_split w = [w]"
  using split_from_word [of w "[]"] by (simp add: is_word_def py_split_def)

lemma split_from_words:
  "list_all (\<lambda>c. \<not> py_isspace c) w \<Longrightarrow> list_all is_word (split_from w s)"
  by (induction s arbitrary: w) (auto simp: is_word_def)

lemma py_split_words: "list_all is_word (py_split s)"
  by (simp add: py_split_def split_from_words)

lemma py_split_Nil: "py_split [] = []"
  by (simp add: py_split_def)

lemma py_split_space:
  "py_isspace c \<Longrightarrow> py_split (a @ c # b) = py_split a @ py_split b"
  by (simp add: py_split_def split_from_space)

lemma py_split_join_newline: "py_split (join newline ls) = concat (map py_split ls)"
proof (induction newline ls rule: join.induct)
  case (3 x y ys)
  have "py_isspace 10" by (simp add: py_isspace_def)
  then have "py_split (x @ 10 # join newline (y # ys)) = py_split x @ py_split (join newline (y # ys))"
    by (rule py_split_space)
  with 3 show ?case by (simp add: newline_def)
qed (simp_all add: py_split_Nil)

lemma add_newlines_loop_words:
  "list_all is_word ws \<Longrightarrow> add_newlines_loop n ws (ls, cur) = (ls', cur') \<Longrightarrow>
     concat (map py_split ls') @ py_split cur' = concat (map py_split ls) @ py_split cur @ ws"
proof (induction ws arbitrary: ls cur)
  case Nil
  then show ?case by simp
next
  case (Cons w ws)
  have w: "py_split w = [w]" using Cons.prems(1) by (simp add: py_split_word)
  have sp: "py_split (cur @ 32 # w) = py_split cur @ [w]"
    using py_split_space [of 32 cur w] w by (simp add: py_isspace_def)
  show ?case
  proof (cases "int (length cur) + int (length w) \<le> n")
    case True
    then have "add_newlines_loop n ws (ls, cur @ (if cur \<noteq> [] then lit '' '' @ w else w)) = (ls', cur')"
      using Cons.prems(2) by simp
    then have "concat (map py_split ls') @ py_split cur' =
        concat (map py_split ls) @ py_split (cur @ (if cur \<noteq> [] then lit '' '' @ w else w)) @ ws"
      using Cons.IH Cons.prems(1) by simp
    then show ?thesis using sp w by (simp add: lit_def py_split_Nil)
  next
    case False
    then have "add_newlines_loop n ws (ls @ [cur], w) = (ls', cur')"
      using Cons.prems(2) by simp
    then have "concat (map py_split ls') @ py_split cur' =
        concat (map py_split (ls @ [cur])) @ py_split w @ ws"
      using Cons.IH Cons.prems(1) by simp
    then show ?thesis using w by simp
  qed
qed

text \<open>The words of the wrapped string are the words of the string, in order.\<close>

lemma add_newlines_words: "py_split (add_newlines s n) = py_split s"
proof -
  obtain ls cur where loop: "add_newlines_loop n (py_split s) ([], []) = (ls, cur)"
    by (cases "add_newlines_loop n (py_split s) ([], [])") 
  have "concat (map py_split ls) @ py_split cur = py_split s"
    using add_newlines_loop_words [OF py_split_words loop] by (simp add: py_split_Nil)
  then show ?thesis
    by (cases "cur = []")
      (simp_all add: add_newlines_def add_newlines_lines_def loop py_split_join_newline py_split_Nil)
qed

lemma add_newlines_loop_bound:
  assumes "add_newlines_loop n ws (ls, cur) = (ls', cur')"
    and "\<forall>l \<in> set (cur # ls). int (length l) \<le> n + 1 \<or> l \<in> W \<or> l = []"
    and "set ws \<subseteq> W"
  shows "\<forall>l \<in> set (cur' # ls'). int (length l) \<le> n + 1 \<or> l \<in> W \<or> l = []"
  using assms
proof (induction ws arbitrary: ls cur)
  case Nil
  then show ?case by simp
next
  case (Cons w ws)
  show ?case
  proof (cases "int (length cur) + int (length w) \<le> n")
    case True
    let ?c = "cur @ (if cur \<noteq> [] then lit '' '' @ w else w)"
    have step: "add_newlines_loop n ws (ls, ?c) = (ls', cur')"
      using Cons.prems(1) True by simp
    have "int (length ?c) \<le> n + 1 \<or> ?c \<in> W"
      using True Cons.prems(3) by (simp add: lit_def)
    then have "\<forall>l \<in> set (?c # ls). int (length l) \<le> n + 1 \<or> l \<in> W \<or> l = []"
      using Cons.prems(2) by auto
    from Cons.IH [OF step this] Cons.prems(3) show ?thesis by simp
  next
    case False
    have step: "add_newlines_loop n ws (ls @ [cur], w) = (ls', cur')"
      using Cons.prems(1) False by simp
    have "\<forall>l \<in> set (w # ls @ [cur]). int (length l) \<le> n + 1 \<or> l \<in> W \<or> l = []"
      using Cons.prems(2,3) by auto
    from Cons.IH [OF step this] Cons.prems(3) show ?thesis by simp
  qed
qed

text \<open>A line of \<open>add_newlines s 50\<close> has at most 51 code points, or is a word of \<open>s\<close>.\<close>

lemma add_newlines_lines_bound:
  "l \<in> set (add_newlines_lines s 50) \<Longrightarrow> length l \<le> 51 \<or> l \<in> set (py_split s)"
proof -
  assume l: "l \<in> set (add_newlines_lines s 50)"
  obtain ls cur where loop: "add_newlines_loop 50 (py_split s) ([], []) = (ls, cur)"
    by (cases "add_newlines_loop 50 (py_split s) ([], [])")
  have "\<forall>l \<in> set (cur # ls). int (length l) \<le> 50 + 1 \<or> l \<in> set (py_split s) \<or> l = []"
    by (rule add_newlines_loop_bound [OF loop]) simp_all
  moreover have "l \<in> set (cur # ls)"
    using l by (auto simp: add_newlines_lines_def loop split: if_splits)
  ultimately show ?thesis by auto
qed

lemma is_word_a: "is_word (replicate 25 97)" and is_word_b: "is_word (replicate 25 98)"
  by (simp_all add: is_word_def py_isspace_def list_all_iff)

lemma py_split_two_words: "py_split two_words = [replicate 25 97, replicate 25 98]"
proof -
  have "py_isspace 32" by (simp add: py_isspace_def)
  then have "py_split (replicate 25 97 @ 32 # replicate 25 98) =
      py_split (replicate 25 97) @ py_split (replicate 25 98)"
    by (rule py_split_space)
  then show ?thesis
    by (simp add: two_words_def lit_def py_split_word is_word_a is_word_b)
qed

text \<open>
  C3 at the string of two words of 25 letters: neither word is longer than 50, the test
  \<open>25 + 25 \<le> 50\<close> passes, and the space between the words makes the only line of the
  result 51 code points long.
\<close>

theorem add_newlines_line_of_51:
  "py_split two_words = [replicate 25 97, replicate 25 98] \<and>
   add_newlines_lines two_words 50 = [two_words] \<and>
   add_newlines two_words 50 = two_words \<and> 10 \<notin> set two_words \<and> length two_words = 51"
  by (simp add: py_split_two_words add_newlines_def add_newlines_lines_def)
    (simp add: two_words_def lit_def)

section \<open>File names\<close>

lemma strftime_a_time: "strftime a_time = lit ''2024_03_05_14_07_09''"
  by (simp add: strftime_def a_time_def zero_pad4_def zero_pad2_def digit_def lit_def)

lemma is_valid_filename_True: "is_valid_filename f"
  by (simp add: is_valid_filename_def os_path_basename_def)

lemma transcript_title_eq:
  "transcript_title d v = (if v = [] then lit ''transcript_'' @ strftime d else v)"
  by (simp add: transcript_title_def is_valid_filename_True)

text \<open>
  C10. \<open>is_valid_filename\<close> is true of every string, so the stem is the time stamp for the
  empty title and the title itself for every other one.
\<close>

theorem is_valid_filename_never_rejects:
  "is_valid_filename filename \<and>
   transcript_title d v = (if v = [] then lit ''transcript_'' @ strftime d else v) \<and>
   (transcript_title d v = v \<longleftrightarrow> v \<noteq> [])"
  by (simp add: is_valid_filename_True transcript_title_eq lit_def)

text \<open>
  C6 at titles with a character that no file name can hold (a slash, a NUL) or that Windows
  refuses (a question mark): each is used as the stem unchanged. The empty title gives
  the time stamp.
\<close>

theorem invalid_title_used_as_stem:
  "transcript_title a_time (lit ''a/b'') = lit ''a/b'' \<and>
   transcript_title a_time (lit ''a'' @ [0] @ lit ''b'') = lit ''a'' @ [0] @ lit ''b'' \<and>
   transcript_title a_time (lit ''what?'') = lit ''what?'' \<and>
   transcript_title a_time [] = lit ''transcript_2024_03_05_14_07_09''"
  by (simp add: transcript_title_eq strftime_a_time) (simp add: lit_def)

section \<open>Transcribing\<close>

lemma Show_loop_home:
  "Show_loop home_panel [home_panel, settings_panel] vis = (\<lambda>p. p = home_panel)"
proof (rule ext)
  fix p
  show "Show_loop home_panel [home_panel, settings_panel] vis p = (p = home_panel)"
    by (cases p) (simp_all add: Show_loop_eq)
qed

lemma TranscriptionApp_fresh: "TranscriptionApp Map.empty = Inr fresh_app"
  by (simp add: TranscriptionApp_def init_def Show_def fresh_app_def Show_loop_home
      del: Show_loop.simps)

lemma clear_error_fields:
  "selected_file (clear_error t a) = selected_file a"
  "environ (clear_error t a) = environ a"
  "threads (clear_error t a) = threads a"
  by (simp_all add: clear_error_def)

lemma transcribe_fields:
  "selected_file (transcribe a) = selected_file a"
  "environ (transcribe a) = environ a"
  by (simp_all add: transcribe_def Let_def clear_error_def notify_error_def)

text \<open>
  What \<open>transcribe\<close> does in each of its three branches, for every state: the thread it
  starts is appended to the threads started before, so a second click starts a second one.
\<close>

lemma transcribe_no_file:
  "\<not> truthy (selected_file a) \<Longrightarrow>
     threads (transcribe a) = threads a \<and>
     error_label (transcribe a) = lit ''No audio file selected.'' \<and>
     error_colour (transcribe a) = red"
  by (simp add: transcribe_def Let_def clear_error_def notify_error_def)

lemma transcribe_no_key:
  "truthy (selected_file a) \<Longrightarrow> \<not> truthy (getenv (environ a) (lit ''OPENAI_API_KEY'')) \<Longrightarrow>
     threads (transcribe a) = threads a \<and>
     error_label (transcribe a) = lit ''No API key provided.'' \<and>
     error_colour (transcribe a) = red"
  by (simp add: transcribe_def Let_def clear_error_def notify_error_def)

lemma transcribe_starts:
  "truthy (selected_file a) \<Longrightarrow> truthy (getenv (environ a) (lit ''OPENAI_API_KEY'')) \<Longrightarrow>
     threads (transcribe a) = threads a @ [send_audio_target] \<and> error_label (transcribe a) = []"
  by (simp add: transcribe_def Let_def clear_error_def)

text \<open>
  C4, amended. With no file selected \<open>transcribe\<close> starts no thread and shows
  \<open>No audio file selected.\<close> in red. With a file selected and \<open>OPENAI_API_KEY\<close> missing
  from the environment or empty, it starts no thread and shows \<open>No API key provided.\<close>
  in red. With a file selected and a non-empty key in the environment it starts exactly
  one thread, after those started before, and leaves the label empty. It starts a thread
  in no other state.
\<close>

theorem transcribe_guarded:
  "(selected_file a = None \<longrightarrow>
      threads (transcribe a) = threads a \<and>
      error_label (transcribe a) = lit ''No audio file selected.'' \<and>
      error_colour (transcribe a) = red) \<and>
   (selected_file a = Some path \<and> path \<noteq> [] \<and>
    (getenv (environ a) (lit ''OPENAI_API_KEY'') = None \<or>
     getenv (environ a) (lit ''OPENAI_API_KEY'') = Some []) \<longrightarrow>
      threads (transcribe a) = threads a \<and>
      error_label (transcribe a) = lit ''No API key provided.'' \<and>
      error_colour (transcribe a) = red) \<and>
   (selected_file a = Some path \<and> path \<noteq> [] \<and>
    getenv (environ a) (lit ''OPENAI_API_KEY'') = Some key \<and> key \<noteq> [] \<longrightarrow>
      threads (transcribe a) = threads a @ [send_audio_target] \<and>
      error_label (transcribe a) = []) \<and>
   (threads (transcribe a) \<noteq> threads a \<longrightarrow>
      (\<exists>p. selected_file a = Some p \<and> p \<noteq> []) \<and>
      (\<exists>k. getenv (environ a) (lit ''OPENAI_API_KEY'') = Some k \<and> k \<noteq> []) \<and>
      threads (transcribe a) = threads a @ [send_audio_target])"
proof (intro conjI impI)
  assume "selected_file a = None"
  then have "\<not> truthy (selected_file a)" by (simp add: truthy_def)
  from transcribe_no_file [OF this]
  show "threads (transcribe a) = threads a"
    and "error_label (transcribe a) = lit ''No audio file selected.''"
    and "error_colour (transcribe a) = red"
    by simp_all
next
  assume h: "selected_file a = Some path \<and> path \<noteq> [] \<and>
    (getenv (environ a) (lit ''OPENAI_API_KEY'') = None \<or>
     getenv (environ a) (lit ''OPENAI_API_KEY'') = Some [])"
  then have f: "truthy (selected_file a)" by (simp add: truthy_def)
  from h have k: "\<not> truthy (getenv (environ a) (lit ''OPENAI_API_KEY''))"
    by (auto simp: truthy_def)
  from transcribe_no_key [OF f k]
  show "threads (transcribe a) = threads a"
    and "error_label (transcribe a) = lit ''No API key provided.''"
    and "error_colour (transcribe a) = red"
    by simp_all
next
  assume h: "selected_file a = Some path \<and> path \<noteq> [] \<and>
    getenv (environ a) (lit ''OPENAI_API_KEY'') = Some key \<and> key \<noteq> []"
  then have f: "truthy (selected_file a)"
    and k: "truthy (getenv (environ a) (lit ''OPENAI_API_KEY''))"
    by (simp_all add: truthy_def)
  from transcribe_starts [OF f k]
  show "threads (transcribe a) = threads a @ [send_audio_target]"
    and "error_label (transcribe a) = []"
    by simp_all
next
  assume ch: "threads (transcribe a) \<noteq> threads a"
  have f: "truthy (selected_file a)"
    using ch transcribe_no_file [of a] by blast
  have k: "truthy (getenv (environ a) (lit ''OPENAI_API_KEY''))"
    using ch f transcribe_no_key [of a] by blast
  from f show "\<exists>p. selected_file a = Some p \<and> p \<noteq> []"
    by (cases "selected_file a") (simp_all add: truthy_def)
  from k show "\<exists>k. getenv (environ a) (lit ''OPENAI_API_KEY'') = Some k \<and> k \<noteq> []"
    by (cases "getenv (environ a) (lit ''OPENAI_API_KEY'')") (simp_all add: truthy_def)
  from transcribe_starts [OF f k]
  show "threads (transcribe a) = threads a @ [send_audio_target]" by simp
qed

lemma with_file_fields:
  "selected_file with_file = Some (lit ''/home/u/talk.wav'')"
  "environ with_file = Map.empty"
  "threads with_file = []"
  "api_key_entry with_file = []"
  "title_entry with_file = []"
  "files with_file = Map.empty"
  "log with_file = [(UI, SetLabel []), (UI, Layout), (UI, Layout)]"
  by (simp_all add: with_file_def select_audio_file_def clear_error_def fresh_app_def)

lemma with_key_fields:
  "selected_file with_key = Some (lit ''/home/u/talk.wav'')"
  "environ with_key (lit ''OPENAI_API_KEY'') = Some (lit ''sk-test'')"
  "threads with_key = []"
  "title_entry with_key = []"
  "log with_key = [(UI, SetLabel []), (UI, Layout), (UI, Layout)]"
  by (simp_all add: with_key_def save_api_key_def return_to_home_def with_file_fields)

lemma lit_nonempty:
  "lit ''/home/u/talk.wav'' \<noteq> []" "lit ''sk-test'' \<noteq> []"
  by (simp_all add: lit_def)

lemma with_cleared_key_fields:
  "selected_file with_cleared_key = Some (lit ''/home/u/talk.wav'')"
  "environ with_cleared_key (lit ''OPENAI_API_KEY'') = Some []"
  "threads with_cleared_key = []"
  by (simp_all add: with_cleared_key_def save_api_key_def return_to_home_def with_key_fields)

text \<open>
  Amended C4 at four states: no file selected; a file selected and an empty environment; a
  file selected and a key saved, where the one thread is started; and that state after a
  first \<open>transcribe\<close>, where a second thread is started.
\<close>

theorem transcribe_guarded_witness:
  "selected_file fresh_app = None \<and> threads (transcribe fresh_app) = threads fresh_app \<and>
   error_label (transcribe fresh_app) = lit ''No audio file selected.'' \<and>
   selected_file with_file = Some (lit ''/home/u/talk.wav'') \<and> lit ''/home/u/talk.wav'' \<noteq> [] \<and>
   getenv (environ with_file) (lit ''OPENAI_API_KEY'') = None \<and>
   threads (transcribe with_file) = threads with_file \<and>
   error_label (transcribe with_file) = lit ''No API key provided.'' \<and>
   selected_file with_key = Some (lit ''/home/u/talk.wav'') \<and>
   getenv (environ with_key) (lit ''OPENAI_API_KEY'') = Some (lit ''sk-test'') \<and>
   lit ''sk-test'' \<noteq> [] \<and>
   threads (transcribe with_key) = threads with_key @ [send_audio_target] \<and>
   threads (transcribe with_key) \<noteq> threads with_key \<and>
   threads (transcribe (transcribe with_key)) = [send_audio_target, send_audio_target]"
proof -
  have f: "selected_file fresh_app = None"
    by (simp add: fresh_app_def)
  have e: "getenv (environ with_file) (lit ''OPENAI_API_KEY'') = None"
    by (simp add: getenv_def with_file_fields)
  have g: "getenv (environ with_key) (lit ''OPENAI_API_KEY'') = Some (lit ''sk-test'')"
    by (simp add: getenv_def with_key_fields)
  have g2: "getenv (environ (transcribe with_key)) (lit ''OPENAI_API_KEY'') = Some (lit ''sk-test'')"
    by (simp add: getenv_def with_key_fields transcribe_fields)
  have s2: "selected_file (transcribe with_key) = Some (lit ''/home/u/talk.wav'')"
    by (simp add: with_key_fields transcribe_fields)
  from f transcribe_guarded [of fresh_app]
  have 1: "threads (transcribe fresh_app) = threads fresh_app \<and>
      error_label (transcribe fresh_app) = lit ''No audio file selected.''"
    by blast
  from lit_nonempty e with_file_fields(1) transcribe_guarded [of with_file "lit ''/home/u/talk.wav''"]
  have 2: "threads (transcribe with_file) = threads with_file \<and>
      error_label (transcribe with_file) = lit ''No API key provided.''"
    by blast
  from lit_nonempty g with_key_fields(1)
    transcribe_guarded [of with_key "lit ''/home/u/talk.wav''" "lit ''sk-test''"]
  have 3: "threads (transcribe with_key) = threads with_key @ [send_audio_target]"
    by blast
  from lit_nonempty g2 s2
    transcribe_guarded [of "transcribe with_key" "lit ''/home/u/talk.wav''" "lit ''sk-test''"]
  have 4: "threads (transcribe (transcribe with_key)) =
      threads (transcribe with_key) @ [send_audio_target]"
    by blast
  have 5: "threads (transcribe with_key) \<noteq> threads with_key"
    using 3 by simp
  have 6: "threads (transcribe (transcribe with_key)) = [send_audio_target, send_audio_target]"
    using 3 4 by (simp add: with_key_fields)
  from f e g 1 2 3 5 6 lit_nonempty with_file_fields(1) with_key_fields(1)
  show ?thesis by blast
qed

text \<open>
  C4, as stated, fails: after the user has saved a key and then saved the empty entry, a
  file is selected and the key is in the environment, as the empty string, and
  \<open>transcribe\<close> starts no thread and shows \<open>No API key provided.\<close> in red.
\<close>

theorem transcribe_present_empty_key_counterexample:
  "selected_file with_cleared_key = Some (lit ''/home/u/talk.wav'') \<and>
   lit ''/home/u/talk.wav'' \<noteq> [] \<and>
   getenv (environ with_cleared_key) (lit ''OPENAI_API_KEY'') = Some [] \<and>
   threads (transcribe with_cleared_key) = [] \<and>
   error_label (transcribe with_cleared_key) = lit ''No API key provided.'' \<and>
   error_colour (transcribe with_cleared_key) = red"
proof -
  have f: "truthy (selected_file with_cleared_key)"
    by (simp add: truthy_def with_cleared_key_fields lit_nonempty)
  have k: "\<not> truthy (getenv (environ with_cleared_key) (lit ''OPENAI_API_KEY''))"
    by (simp add: truthy_def getenv_def with_cleared_key_fields)
  from transcribe_no_key [OF f k] show ?thesis
    by (simp add: with_cleared_key_fields getenv_def lit_nonempty)
qed

text \<open>
  C5, as stated, fails: after \<open>save_api_key\<close> with an empty entry the environment holds
  the empty string, and \<open>transcribe\<close> with a file selected starts no thread and shows
  \<open>No API key provided.\<close> in red.
\<close>

theorem empty_credential_counterexample:
  "api_key_entry with_file = [] \<and>
   selected_file (save_api_key with_file) = Some (lit ''/home/u/talk.wav'') \<and>
   getenv (environ (save_api_key with_file)) (lit ''OPENAI_API_KEY'') = Some [] \<and>
   threads (transcribe (save_api_key with_file)) = [] \<and>
   error_label (transcribe (save_api_key with_file)) = lit ''No API key provided.'' \<and>
   error_colour (transcribe (save_api_key with_file)) = red"
  by (simp add: with_file_fields save_api_key_def return_to_home_def getenv_def transcribe_def
      Let_def truthy_def clear_error_def notify_error_def lit_def)

text \<open>
  C5, amended. \<open>save_api_key\<close> with an empty entry stores the empty string in the
  environment, and a following \<open>transcribe\<close> with a file selected treats it as it treats
  a missing key: it starts no thread and shows \<open>No API key provided.\<close> in red.
\<close>

theorem empty_credential_is_no_credential:
  "api_key_entry a = [] \<Longrightarrow> selected_file a = Some path \<Longrightarrow> path \<noteq> [] \<Longrightarrow>
     getenv (environ (save_api_key a)) (lit ''OPENAI_API_KEY'') = Some [] \<and>
     threads (transcribe (save_api_key a)) = threads a \<and>
     error_label (transcribe (save_api_key a)) = lit ''No API key provided.'' \<and>
     error_colour (transcribe (save_api_key a)) = red"
  by (simp add: save_api_key_def return_to_home_def getenv_def transcribe_def
      Let_def truthy_def clear_error_def notify_error_def)

text \<open>Amended C5 at the state with a file selected and the entry left empty.\<close>

theorem empty_credential_is_no_credential_witness:
  "api_key_entry with_file = [] \<and> selected_file with_file = Some (lit ''/home/u/talk.wav'') \<and>
   lit ''/home/u/talk.wav'' \<noteq> [] \<and>
   getenv (environ (save_api_key with_file)) (lit ''OPENAI_API_KEY'') = Some [] \<and>
   threads (transcribe (save_api_key with_file)) = threads with_file \<and>
   error_label (transcribe (save_api_key with_file)) = lit ''No API key provided.''"
  using empty_credential_is_no_credential [of with_file "lit ''/home/u/talk.wav''"]
  by (simp add: with_file_fields lit_def)

section \<open>The job\<close>

lemma add_newlines_rate_limited: "add_newlines (lit ''rate limited'') 50 = lit ''rate limited''"
  by (simp add: add_newlines_def add_newlines_lines_def py_split_def lit_def py_isspace_def newline_def)

text \<open>
  C7 at a selected file and a remote failure \<open>rate limited\<close>: \<open>send_audio\<close> sets the
  label to the red \<open>OPENAI error: rate limited\<close>, writes the file with the text
  \<open>test\<close>, and then sets the label to the green message of the saved file, which is what
  the label holds in the end.
\<close>

theorem remote_failure_ends_green:
  "(let a = state_of (send_audio Worker rate_limited with_file) in
     error_colour a = green \<and>
     error_label a = saved_message (lit ''/home/u'') (lit ''transcript_2024_03_05_14_07_09'') \<and>
     error_label a \<noteq> lit ''OPENAI error: rate limited'' \<and>
     files a (lit ''transcript_2024_03_05_14_07_09.txt'') = Some (lit ''test'') \<and>
     log a = log with_file @
       [(Worker, SetForegroundColour red), (Worker, SetLabel (lit ''OPENAI error: rate limited'')),
        (Worker, Layout),
        (Worker, FileWrite (lit ''transcript_2024_03_05_14_07_09.txt'') (lit ''test'')),
        (Worker, SetForegroundColour green),
        (Worker, SetLabel (saved_message (lit ''/home/u'') (lit ''transcript_2024_03_05_14_07_09''))),
        (Worker, Layout)])"
  by (simp add: Let_def send_audio_def with_file_fields rate_limited_def save_transcript_def
      notify_error_def transcript_title_eq strftime_a_time add_newlines_rate_limited)
    (simp add: lit_def saved_message_def)

text \<open>
  On a response without the attribute \<open>data\<close> the job ends with the uncaught
  \<open>AttributeError\<close> and changes nothing.
\<close>

lemma send_audio_no_data:
  "selected_file a = Some path \<Longrightarrow> can_read w path \<Longrightarrow> remote w = Response None \<Longrightarrow>
     send_audio t w a = Raised AttributeError a"
  by (simp add: send_audio_def)

lemma transcribe_with_key_fields:
  "threads (transcribe with_key) = [send_audio_target]"
  "selected_file (transcribe with_key) = Some (lit ''/home/u/talk.wav'')"
  "title_entry (transcribe with_key) = []"
  by (simp_all add: transcribe_def Let_def truthy_def clear_error_def with_key_fields getenv_def
      lit_nonempty)

text \<open>
  C9, as stated, fails: \<open>transcribe\<close> starts one thread, and that thread, running
  \<open>send_audio\<close> on a failing remote call, itself sets the label to the failure message,
  writes the file and sets the label again.
\<close>

theorem worker_thread_sets_label_counterexample:
  "threads (transcribe with_key) = [send_audio_target] \<and>
   (Worker, SetLabel (lit ''OPENAI error: rate limited''))
     \<in> set (log (state_of (run send_audio_target rate_limited (transcribe with_key)))) \<and>
   (Worker, FileWrite (lit ''transcript_2024_03_05_14_07_09.txt'') (lit ''test''))
     \<in> set (log (state_of (run send_audio_target rate_limited (transcribe with_key)))) \<and>
   (Worker, SetLabel (saved_message (lit ''/home/u'') (lit ''transcript_2024_03_05_14_07_09'')))
     \<in> set (log (state_of (run send_audio_target rate_limited (transcribe with_key))))"
  by (simp add: transcribe_with_key_fields send_audio_def rate_limited_def save_transcript_def
      notify_error_def transcript_title_eq strftime_a_time add_newlines_rate_limited Let_def)
    (simp add: lit_def)

text \<open>
  C9, amended. Every effect of a job (label colour, label text, layout, file write) is made
  by the worker thread that runs \<open>send_audio\<close>: the log grows by effects of the worker
  thread only, and when the job returns, the file write and the label it leaves are among
  them. Nothing is handed back to the UI thread.
\<close>

theorem job_effects_on_worker_thread:
  "\<exists>es. log (state_of (run tg w a)) = log a @ es \<and> list_all (\<lambda>e. fst e = Worker) es \<and>
     (\<forall>a'. run tg w a = Returned a' \<longrightarrow>
        (\<exists>name text. (Worker, FileWrite name text) \<in> set es \<and> files a' name = Some text) \<and>
        (Worker, SetLabel (error_label a')) \<in> set es)"
  by (cases tg)
    (auto simp: send_audio_def save_transcript_def notify_error_def Let_def
      split: option.splits api_result.splits)

text \<open>Amended C9 at the state with a file and a key, on a failing remote call.\<close>

theorem job_effects_on_worker_thread_witness:
  "(\<exists>a'. run send_audio_target rate_limited with_key = Returned a') \<and>
   (\<exists>es. log (state_of (run send_audio_target rate_limited with_key)) = log with_key @ es \<and>
      list_all (\<lambda>e. fst e = Worker) es \<and> es \<noteq> [])"
proof -
  have r: "\<exists>a'. run send_audio_target rate_limited with_key = Returned a'"
    by (simp add: send_audio_def rate_limited_def save_transcript_def with_key_fields Let_def)
  from job_effects_on_worker_thread [of send_audio_target rate_limited with_key]
  obtain es where es:
    "log (state_of (run send_audio_target rate_limited with_key)) = log with_key @ es"
    "list_all (\<lambda>e. fst e = Worker) es"
    "\<forall>a'. run send_audio_target rate_limited with_key = Returned a' \<longrightarrow>
        (\<exists>name text. (Worker, FileWrite name text) \<in> set es \<and> files a' name = Some text) \<and>
        (Worker, SetLabel (error_label a')) \<in> set es"
    by blast
  from r es(3) have "es \<noteq> []" by auto
  with r es(1,2) show ?thesis by blast
qed

end
